theory Spec2Isabelle
  imports Main "HOL-Library.Word" "HOL-Library.Stream"
begin

unbundle bit_operations_syntax

section \<open>Bytes, strings and errors\<close>

text \<open>
  A Go \<^verbatim>\<open>byte\<close> is an 8-bit word, a Go \<^verbatim>\<open>string\<close> a sequence of bytes: HOL's
  \<^typ>\<open>string\<close>, whose characters are 8 bits wide. \<^verbatim>\<open>[]byte(s)\<close> converts without
  changing a byte.
\<close>

type_synonym byte = "8 word"

definition byte_of_char :: "char \<Rightarrow> byte" where
  "byte_of_char c = of_nat (of_char c)"

definition bytes_of_string :: "string \<Rightarrow> byte list" where
  "bytes_of_string s = map byte_of_char s"

text \<open>
  A Go \<^verbatim>\<open>error\<close> value. \<^verbatim>\<open>errors.New\<close> and \<^verbatim>\<open>fmt.Errorf\<close> without \<^verbatim>\<open>%w\<close> give a
  plain message; \<^verbatim>\<open>fmt.Errorf\<close> with \<^verbatim>\<open>%w\<close> gives the formatted message together with the
  error it wraps. A nil \<^verbatim>\<open>error\<close> is \<open>None\<close> of \<open>error option\<close>.
\<close>

datatype error = errorString string | wrapError string error

fun Error_msg :: "error \<Rightarrow> string" where
  "Error_msg (errorString s) = s"
| "Error_msg (wrapError s e) = s"

text \<open>\<^verbatim>\<open>fmt.Errorf(prefix + "%w", err)\<close>: the message is the prefix followed by the message
  of the wrapped error.\<close>

definition Errorf_w :: "string \<Rightarrow> error \<Rightarrow> error" where
  "Errorf_w prefix err = wrapError (prefix @ Error_msg err) err"

section \<open>Library functions the authenticator calls\<close>

subsection \<open>encoding/hex\<close>

definition hextable :: string where
  "hextable = ''0123456789abcdef''"

text \<open>\<^verbatim>\<open>reverseHexTable\<close>: the value of a hexadecimal digit of either case, \<open>0xff\<close> for
  every other byte.\<close>

definition reverseHexTable :: "char \<Rightarrow> byte" where
  "reverseHexTable c =
     (let n = (of_char c :: nat) in
      if 48 \<le> n \<and> n \<le> 57 then of_nat (n - 48)
      else if 65 \<le> n \<and> n \<le> 70 then of_nat (n - 55)
      else if 97 \<le> n \<and> n \<le> 102 then of_nat (n - 87)
      else 0xff)"

text \<open>\<^verbatim>\<open>hex.EncodeToString\<close>: two digits per byte, \<^verbatim>\<open>hextable[v>>4]\<close> then
  \<^verbatim>\<open>hextable[v&0x0f]\<close>.\<close>

fun EncodeToString :: "byte list \<Rightarrow> string" where
  "EncodeToString [] = []"
| "EncodeToString (v # src) =
     hextable ! unat (drop_bit 4 v) # hextable ! unat (v AND 0x0f) # EncodeToString src"

datatype hex_error = InvalidByteError char | ErrLength

text \<open>
  \<^verbatim>\<open>hex.DecodeString\<close>: the loop of \<^verbatim>\<open>hex.Decode\<close> reads two characters at a time and
  stops at the first that is no digit; a single character left over is checked before the
  odd length is reported. As in Go, the bytes decoded before the error are returned with it.
\<close>

fun DecodeString :: "string \<Rightarrow> byte list \<times> hex_error option" where
  "DecodeString [] = ([], None)"
| "DecodeString [p] =
     (if reverseHexTable p > 0x0f then ([], Some (InvalidByteError p))
      else ([], Some ErrLength))"
| "DecodeString (p # q # src) =
     (let a = reverseHexTable p; b = reverseHexTable q in
      if a > 0x0f then ([], Some (InvalidByteError p))
      else if b > 0x0f then ([], Some (InvalidByteError q))
      else (let (dst, err) = DecodeString src in ((push_bit 4 a OR b) # dst, err)))"

subsection \<open>crypto/subtle and crypto/hmac\<close>

text \<open>\<^verbatim>\<open>subtle.ConstantTimeByteEq\<close>: \<^verbatim>\<open>int((uint32(x^y) - 1) >> 31)\<close>.\<close>

definition ConstantTimeByteEq :: "byte \<Rightarrow> byte \<Rightarrow> int" where
  "ConstantTimeByteEq x y = uint (drop_bit 31 ((ucast (x XOR y) :: 32 word) - 1))"

text \<open>\<^verbatim>\<open>subtle.ConstantTimeCompare\<close>: 0 when the lengths differ; otherwise the
  differences of all positions are accumulated with OR and compared with 0 once.\<close>

definition ConstantTimeCompare :: "byte list \<Rightarrow> byte list \<Rightarrow> int" where
  "ConstantTimeCompare x y =
     (if length x \<noteq> length y then 0
      else ConstantTimeByteEq (fold (\<lambda>(a, b) v. v OR (a XOR b)) (zip x y) 0) 0)"

text \<open>\<^verbatim>\<open>hmac.Equal\<close>.\<close>

definition hmac_Equal :: "byte list \<Rightarrow> byte list \<Rightarrow> bool" where
  "hmac_Equal mac1 mac2 = (ConstantTimeCompare mac1 mac2 = 1)"

text \<open>
  The hash functions themselves belong to the Go standard library, not to this program.
  They are parameters of the model: \<open>sum256 :: hash\<close> stands for \<^verbatim>\<open>sha256.Sum256\<close>, and
  \<open>hmac key msg\<close> of type \<open>keyed_hash\<close> for
  \<^verbatim>\<open>m := hmac.New(sha256.New, key); m.Write(msg); m.Sum(nil)\<close>.
  \<open>sha256_Size\<close> is the length of a SHA-256 digest.
\<close>

type_synonym hash = "byte list \<Rightarrow> byte list"
type_synonym keyed_hash = "byte list \<Rightarrow> byte list \<Rightarrow> byte list"

definition sha256_Size :: nat where
  "sha256_Size = 32"

section \<open>The authenticator (src/auth.go)\<close>

text \<open>A \<^verbatim>\<open>uuid.UUID\<close> is an array of 16 bytes; \<^verbatim>\<open>ch[:]\<close> is the list of its bytes.\<close>

type_synonym UUID = "byte list"

record Authenticator =
  k :: "byte list"

definition NewAuthenticator :: "hash \<Rightarrow> string \<Rightarrow> Authenticator" where
  "NewAuthenticator sum256 secret = \<lparr> k = sum256 (bytes_of_string secret) \<rparr>"

definition GenerateAnswer :: "keyed_hash \<Rightarrow> Authenticator \<Rightarrow> UUID \<Rightarrow> string" where
  "GenerateAnswer hmac a ch = EncodeToString (hmac (k a) ch)"

definition ValidateAnswer :: "keyed_hash \<Rightarrow> Authenticator \<Rightarrow> UUID \<Rightarrow> string \<Rightarrow> bool" where
  "ValidateAnswer hmac a ch ans =
     (let (b, err) = DecodeString ans in
      if err \<noteq> None then False
      else (let em = hmac (k a) ch in hmac_Equal em b))"

section \<open>Messages (src/auth.go, the message types)\<close>

definition MtChallenge :: string where "MtChallenge = ''Challenge''"
definition MtHeartbeat :: string where "MtHeartbeat = ''Heartbeat''"
definition MtConnection :: string where "MtConnection = ''Connection''"
definition MtAuthenticate :: string where "MtAuthenticate = ''Authenticate''"
definition MtFreePort :: string where "MtFreePort = ''FreePort''"
definition MtHello :: string where "MtHello = ''Hello''"
definition MtError :: string where "MtError = ''Error''"

type_synonym uint16 = "16 word"

text \<open>The zero value of \<^verbatim>\<open>uuid.UUID\<close>, which a struct literal leaves in a field it does not
  name.\<close>

definition uuid_Nil :: UUID where
  "uuid_Nil = replicate 16 0"

text \<open>Both message structs carry the tag as a string and every payload field side by side;
  the fields are prefixed here because the two structs share the names \<^verbatim>\<open>Type\<close> and
  \<^verbatim>\<open>Port\<close>.\<close>

record ClientMessage =
  cm_Type :: string
  cm_Authenticate :: string
  cm_Port :: uint16
  cm_Accept :: UUID
  cm_ClientId :: string

record ServerMessage =
  sm_Type :: string
  sm_Challenge :: UUID
  sm_Port :: uint16
  sm_Heartbeat :: bool
  sm_Connection :: UUID
  sm_Error :: string

section \<open>The network and the channel\<close>

text \<open>
  What the remote end of a connection will do is given in advance, as the environment of
  the run: \<open>replies\<close> is the sequence of results of the successive receives on the
  connection (a message, or the error of a receive that fails: a deadline that elapses,
  a closed connection, a frame that does not decode), \<open>send_results\<close> the results of the
  successive sends (\<open>None\<close> when the message goes out).
\<close>

record Peer =
  replies :: "(error + ServerMessage) stream"
  send_results :: "error option stream"

text \<open>A \<^verbatim>\<open>net.Conn\<close>: the index of the socket in the table of the world, and its remote
  end.\<close>

record Conn =
  fd :: nat
  peer :: Peer

text \<open>
  The world outside the values of the program: the table of sockets opened so far
  (\<open>True\<close> while a socket is open), the lines written with \<^verbatim>\<open>log\<close>, and the goroutines
  started with \<^verbatim>\<open>go\<close>, each named by the connection identifier it serves.
\<close>

record World =
  socks :: "bool list"
  logs :: "string list"
  goroutines :: "UUID list"

definition Close :: "Conn \<Rightarrow> World \<Rightarrow> World" where
  "Close c w = w\<lparr>socks := (socks w)[fd c := False]\<rparr>"

definition log_Println :: "string \<Rightarrow> World \<Rightarrow> World" where
  "log_Println line w = w\<lparr>logs := logs w @ [line]\<rparr>"

text \<open>\<^verbatim>\<open>%d\<close> of an unsigned number.\<close>

fun itoa :: "nat \<Rightarrow> string" where
  "itoa n = (if n < 10 then [''0123456789'' ! n]
             else itoa (n div 10) @ [''0123456789'' ! (n mod 10)])"

text \<open>
  \<^verbatim>\<open>establishConnectionWithTimeout\<close>. The first argument is the result of
  \<^verbatim>\<open>net.DialTimeout\<close> in this run: an error, or the remote end of the new connection.
\<close>

definition establishConnectionWithTimeout ::
  "error + Peer \<Rightarrow> string \<Rightarrow> uint16 \<Rightarrow> World \<Rightarrow> (error + Conn) \<times> World" where
  "establishConnectionWithTimeout dial host port w =
     (let address = host @ '':'' @ itoa (unat port) in
      case dial of
        Inl err \<Rightarrow> (Inl (Errorf_w (''could not connect to '' @ address @ '': '') err), w)
      | Inr p \<Rightarrow> (Inr \<lparr>fd = length (socks w), peer = p\<rparr>, w\<lparr>socks := socks w @ [True]\<rparr>))"

text \<open>
  Modelled from the spec: the type \<^verbatim>\<open>Codec\<close>, whose source file is not among the files
  modelled here. The spec treats it as an opaque duplex channel of typed messages over a
  connection. The model keeps the connection, what the remote end will still deliver,
  the results the coming sends will have, and the messages that went out, in order.
\<close>

record Codec =
  conn :: Conn
  incoming :: "(error + ServerMessage) stream"
  outcomes :: "error option stream"
  sent :: "ClientMessage list"

text \<open>Modelled from the spec: \<^verbatim>\<open>NewCodec\<close>, which wraps a connection as a channel.\<close>

definition NewCodec :: "Conn \<Rightarrow> Codec" where
  "NewCodec c = \<lparr>conn = c, incoming = replies (peer c), outcomes = send_results (peer c),
     sent = []\<rparr>"

text \<open>
  Modelled from the spec: \<^verbatim>\<open>Codec.Recv\<close>, which yields one complete message or fails,
  with a timeout when the context carries a deadline and the deadline elapses, or with a
  decode error. Whether a deadline elapses is decided by the remote end, so the context
  is no argument here: the failure is the next element of \<open>incoming\<close>.
\<close>

definition Recv :: "Codec \<Rightarrow> (error + ServerMessage) \<times> Codec" where
  "Recv c = (shd (incoming c), c\<lparr>incoming := stl (incoming c)\<rparr>)"

text \<open>Modelled from the spec: \<^verbatim>\<open>Codec.Send\<close>, which enqueues exactly one complete message,
  or fails with a transport error and enqueues nothing.\<close>

definition Send :: "Codec \<Rightarrow> ClientMessage \<Rightarrow> error option \<times> Codec" where
  "Send c m =
     (case shd (outcomes c) of
        Some err \<Rightarrow> (Some err, c\<lparr>outcomes := stl (outcomes c)\<rparr>)
      | None \<Rightarrow> (None, c\<lparr>outcomes := stl (outcomes c), sent := sent c @ [m]\<rparr>))"

section \<open>The client handshake (src/auth.go)\<close>

text \<open>
  \<^verbatim>\<open>PerformClientHandshake\<close>, returning the result together with the channel as the
  calls left it. Go's pair \<^verbatim>\<open>(0, err)\<close> is \<open>Inl err\<close>, \<^verbatim>\<open>(port, nil)\<close> is \<open>Inr port\<close>.
\<close>

definition PerformClientHandshake ::
  "keyed_hash \<Rightarrow> Authenticator \<Rightarrow> Codec \<Rightarrow> string \<Rightarrow> (error + uint16) \<times> Codec" where
  "PerformClientHandshake hmac a stream clientId =
     (case Recv stream of
        (Inl err, s1) \<Rightarrow> (Inl err, s1)
      | (Inr msg, s1) \<Rightarrow>
          if sm_Type msg \<noteq> MtChallenge
          then (Inl (errorString ''no secret provided / invalid secret key''), s1)
          else
            (let answer = GenerateAnswer hmac a (sm_Challenge msg) in
             case Send s1 \<lparr>cm_Type = MtAuthenticate, cm_Authenticate = answer, cm_Port = 0,
                           cm_Accept = uuid_Nil, cm_ClientId = clientId\<rparr> of
               (Some err, s2) \<Rightarrow> (Inl err, s2)
             | (None, s2) \<Rightarrow>
                 (case Recv s2 of
                    (Inl err, s3) \<Rightarrow> (Inl err, s3)
                  | (Inr msg', s3) \<Rightarrow>
                      if sm_Type msg' \<noteq> MtFreePort
                      then (Inl (errorString ''rejection response from server''), s3)
                      else (Inr (sm_Port msg'), s3))))"

section \<open>The control session (src/misc.go)\<close>

text \<open>The struct \<^verbatim>\<open>Client\<close>. \<^verbatim>\<open>auth\<close> is a pointer and may be nil.\<close>

record Client =
  sp :: uint16
  cc :: Codec
  da :: string
  lh :: string
  lp :: uint16
  rp :: uint16
  auth :: "Authenticator option"
  cid :: string

definition processInitialServerMessage :: "ServerMessage \<Rightarrow> error + uint16" where
  "processInitialServerMessage msg =
     (if sm_Type msg = MtHello then Inr (sm_Port msg)
      else if sm_Type msg = MtError
        then Inl (errorString (''server error: '' @ sm_Error msg))
      else if sm_Type msg = MtChallenge
        then Inl (errorString
          ''server requires authentication, but no client secret was provided'')
      else Inl (errorString
          (''unexpected initial non-hello message of type: '' @ sm_Type msg)))"

text \<open>
  \<^verbatim>\<open>NewClient\<close>. \<open>dial\<close> is the result of connecting to the server in this run. The
  channel of a construction that fails is dropped, as in the Go code, whose caller gets
  the error alone.
\<close>

definition NewClient ::
  "hash \<Rightarrow> keyed_hash \<Rightarrow> error + Peer \<Rightarrow>
     uint16 \<Rightarrow> string \<Rightarrow> uint16 \<Rightarrow> string \<Rightarrow> string \<Rightarrow> string \<Rightarrow> World \<Rightarrow>
     (error + Client) \<times> World" where
  "NewClient sum256 hmac dial sp' lh' lp' da' cid' s w =
     (case establishConnectionWithTimeout dial da' sp' w of
        (Inl err, w1) \<Rightarrow> (Inl (Errorf_w (''failed to connect to '' @ da' @ '': '') err), w1)
      | (Inr conn', w1) \<Rightarrow>
          (let cc0 = NewCodec conn'; auth' = NewAuthenticator sum256 s in
           case PerformClientHandshake hmac auth' cc0 cid' of
             (Inl err, cc1) \<Rightarrow> (Inl (Errorf_w ''client handshake failed: '' err), w1)
           | (Inr destPort, cc1) \<Rightarrow>
               (case Send cc1 \<lparr>cm_Type = MtHello, cm_Authenticate = [], cm_Port = destPort,
                                cm_Accept = uuid_Nil, cm_ClientId = []\<rparr> of
                  (Some err, cc2) \<Rightarrow>
                    (Inl (Errorf_w ''failed to send hello message: '' err), w1)
                | (None, cc2) \<Rightarrow>
                    (case Recv cc2 of
                       (Inl err, cc3) \<Rightarrow>
                         (Inl (Errorf_w ''failed to receive server message: '' err), w1)
                     | (Inr msg, cc3) \<Rightarrow>
                         (case processInitialServerMessage msg of
                            Inl err \<Rightarrow> (Inl err, w1)
                          | Inr rp' \<Rightarrow>
                              (Inr \<lparr>sp = sp', cc = cc3, da = da', lh = lh', lp = lp',
                                     rp = rp', auth = Some auth', cid = cid'\<rparr>,
                               log_Println ''Listening for connection to redirect''
                                 (log_Println (''Connected to server at '' @ da' @ '':'' @
                                    itoa (unat rp')) w1)))))))"

definition RemotePort :: "Client \<Rightarrow> uint16" where
  "RemotePort c = rp c"

text \<open>
  \<^verbatim>\<open>processServerMessage\<close>. The statement \<^verbatim>\<open>go func() { ... }()\<close> starts the handler and
  goes on without waiting for it: the new goroutine is recorded in the world, and nothing
  of what it will do is an input of this function.
\<close>

definition processServerMessage :: "Client \<Rightarrow> ServerMessage \<Rightarrow> World \<Rightarrow> error option \<times> World" where
  "processServerMessage c msg w =
     (if sm_Type msg = MtHello
        then (None, log_Println ''Received an unexpected hello message'' w)
      else if sm_Type msg = MtChallenge
        then (None, log_Println ''Received an unexpected challenge message'' w)
      else if sm_Type msg = MtHeartbeat
        then (None, w)
      else if sm_Type msg = MtConnection
        then (None, w\<lparr>goroutines := goroutines w @ [sm_Connection msg]\<rparr>)
      else if sm_Type msg = MtError
        then (Some (errorString (''server error: '' @ sm_Error msg)), w)
      else (Some (errorString (''received unexpected message type: '' @ sm_Type msg)), w))"

text \<open>
  \<^verbatim>\<open>Listen\<close>: a loop with no exit but its two \<^verbatim>\<open>return\<close> statements, which may run
  forever; \<open>None\<close> is the run that never returns. The value returned is Go's \<^verbatim>\<open>error\<close>
  (\<open>None\<close> for nil), with the client and the world as the loop left them. The receive
  has no deadline here. The progress spinner is display only and left out.
\<close>

partial_function (option) Listen ::
  "Client \<Rightarrow> World \<Rightarrow> (error option \<times> Client \<times> World) option" where
  "Listen c w =
     (case Recv (cc c) of
        (Inl err, cc') \<Rightarrow>
          Some (Some (Errorf_w ''failed to receive server message: '' err), c\<lparr>cc := cc'\<rparr>, w)
      | (Inr msg, cc') \<Rightarrow>
          (case processServerMessage (c\<lparr>cc := cc'\<rparr>) msg w of
             (Some err, w') \<Rightarrow> Some (Some err, c\<lparr>cc := cc'\<rparr>, w')
           | (None, w') \<Rightarrow> Listen (c\<lparr>cc := cc'\<rparr>) w'))"

section \<open>The tunnel connection handler (src/misc.go)\<close>

text \<open>
  What one run of the handler meets: the results of its two connection attempts, and of
  its two copies. A copy ends with the result of \<^verbatim>\<open>io.Copy\<close>, or never ends (no side
  closes its stream). When both copies fail, \<open>up_first\<close> says that the copy towards the
  server was the first to report.
\<close>

datatype copy_outcome = Ends "error option" | Never_ends

record HandlerEnv =
  server_dial :: "error + Peer"
  local_dial :: "error + Peer"
  copy_down :: copy_outcome
  copy_up :: copy_outcome
  up_first :: bool

text \<open>
  \<^verbatim>\<open>errgroup\<close>: \<^verbatim>\<open>Wait\<close> returns once both functions have returned, with the first
  non-nil error that one of them reported; \<open>None\<close> when it never returns.
\<close>

definition eg_Wait :: "copy_outcome \<Rightarrow> copy_outcome \<Rightarrow> bool \<Rightarrow> error option option" where
  "eg_Wait down up upfirst =
     (case (down, up) of
        (Ends d, Ends u) \<Rightarrow>
          Some (case (d, u) of
                  (None, None) \<Rightarrow> None
                | (Some e, None) \<Rightarrow> Some e
                | (None, Some e) \<Rightarrow> Some e
                | (Some e1, Some e2) \<Rightarrow> Some (if upfirst then e2 else e1))
      | _ \<Rightarrow> None)"

text \<open>\<^verbatim>\<open>defer conn.Close()\<close>: the socket is closed when the function returns, whatever it
  returns; a function that never returns closes nothing.\<close>

definition defer_Close :: "Conn \<Rightarrow> error option option \<times> World \<Rightarrow> error option option \<times> World" where
  "defer_Close c r =
     (case r of
        (None, w) \<Rightarrow> (None, w)
      | (Some res, w) \<Rightarrow> (Some res, Close c w))"

text \<open>
  \<^verbatim>\<open>establishConnectionRoutine\<close>. The result is \<open>None\<close> when the handler never returns,
  \<open>Some None\<close> when it returns nil, \<open>Some (Some err)\<close> when it returns an error.
\<close>

definition establishConnectionRoutine ::
  "keyed_hash \<Rightarrow> Client \<Rightarrow> UUID \<Rightarrow> HandlerEnv \<Rightarrow> World \<Rightarrow> error option option \<times> World" where
  "establishConnectionRoutine hmac c id' env w =
     (case establishConnectionWithTimeout (server_dial env) (da c) (sp c) w of
        (Inl err, w1) \<Rightarrow>
          (Some (Some (Errorf_w (''failed to connect to '' @ da c @ '': '') err)), w1)
      | (Inr conn', w1) \<Rightarrow>
          defer_Close conn'
            (let rc = NewCodec conn';
                 hs = (case auth c of
                         None \<Rightarrow> (None, rc)
                       | Some a \<Rightarrow>
                           (case PerformClientHandshake hmac a rc (cid c) of
                              (Inl err, rc') \<Rightarrow> (Some err, rc')
                            | (Inr _, rc') \<Rightarrow> (None, rc')))
             in case hs of
               (Some err, rc1) \<Rightarrow> (Some (Some (Errorf_w ''client handshake failed: '' err)), w1)
             | (None, rc1) \<Rightarrow>
                 (case Send rc1 \<lparr>cm_Type = ''Accept'', cm_Authenticate = [], cm_Port = 0,
                                  cm_Accept = id', cm_ClientId = []\<rparr> of
                    (Some err, rc2) \<Rightarrow>
                      (Some (Some (Errorf_w ''failed to send accept message: '' err)), w1)
                  | (None, rc2) \<Rightarrow>
                      (case establishConnectionWithTimeout (local_dial env) (lh c) (lp c) w1 of
                         (Inl err, w2) \<Rightarrow>
                           (Some (Some (Errorf_w
                              (''failed to connect to local host '' @ lh c @ '':'' @
                               itoa (unat (lp c)) @ '': '') err)), w2)
                       | (Inr lconn, w2) \<Rightarrow>
                           defer_Close lconn
                             (case eg_Wait (copy_down env) (copy_up env) (up_first env) of
                                None \<Rightarrow> (None, w2)
                              | Some (Some err) \<Rightarrow>
                                  (Some (Some (Errorf_w ''data transfer failed: '' err)), w2)
                              | Some None \<Rightarrow> (Some None, w2))))))"

text \<open>
  The body of the goroutine that \<^verbatim>\<open>processServerMessage\<close> starts: it runs the handler
  and writes one line to the log when the handler returns. It returns no value.
\<close>

definition connection_goroutine :: "keyed_hash \<Rightarrow> Client \<Rightarrow> UUID \<Rightarrow> HandlerEnv \<Rightarrow> World \<Rightarrow> World" where
  "connection_goroutine hmac c id' env w =
     (case establishConnectionRoutine hmac c id' env w of
        (None, w') \<Rightarrow> w'
      | (Some (Some err), w') \<Rightarrow>
          log_Println (''Connection exited with error: '' @ Error_msg err) w'
      | (Some None, w') \<Rightarrow> log_Println ''Connection closed gracefully'' w')"

section \<open>What the documentation of the library calls a hexadecimal string\<close>

text \<open>
  Not taken from the code of the decoder but from the words of its documentation
  (\<^verbatim>\<open>DecodeString\<close> "expects that src contains only hexadecimal characters and that src
  has even length"): the strings that count as valid hex.
\<close>


definition hex_digit :: "char \<Rightarrow> bool" where
  "hex_digit c = (c \<in> set ''0123456789abcdefABCDEF'')"

definition valid_hex :: "string \<Rightarrow> bool" where
  "valid_hex s = (even (length s) \<and> list_all hex_digit s)"

section \<open>Predicates used in the statements\<close>

text \<open>The errors with which the control loop can end: a receive failure, wrapped with
  the prefix "failed to receive server message: ", or a plain error that starts with
  "server error: " or with "received unexpected message type: ".\<close>

definition starts_with :: "string \<Rightarrow> string \<Rightarrow> bool" where
  "starts_with p s = (take (length p) s = p)"

fun loop_error :: "error \<Rightarrow> bool" where
  "loop_error (wrapError m err) =
     (m = ''failed to receive server message: '' @ Error_msg err)"
| "loop_error (errorString m) =
     (starts_with ''server error: '' m \<or>
      starts_with ''received unexpected message type: '' m)"

text \<open>
  What a run of the handler that started in world \<open>w\<close> must satisfy. When it returns, the
  socket table is the one it found, followed by the sockets the run opened (none when the
  connection to the server failed, at most two, exactly two when it returns nil), all of
  them closed. When it does not return, one of the two copies never ends. In every case
  the run leaves the log and the list of goroutines as they were.
\<close>

definition handler_ok :: "HandlerEnv \<Rightarrow> World \<Rightarrow> error option option \<times> World \<Rightarrow> bool" where
  "handler_ok env w res =
     (case res of
        (Some r, w') \<Rightarrow>
          socks w' = socks w @ replicate (length (socks w') - length (socks w)) False \<and>
          length (socks w') \<le> length (socks w) + 2 \<and>
          (length (socks w') = length (socks w)) = isl (server_dial env) \<and>
          (if r = None then length (socks w') = length (socks w) + 2 else True) \<and>
          logs w' = logs w \<and> goroutines w' = goroutines w
      | (None, w') \<Rightarrow>
          (copy_down env = Never_ends \<or> copy_up env = Never_ends) \<and>
          logs w' = logs w \<and> goroutines w' = goroutines w)"

section \<open>A scripted server, for the example runs\<close>

text \<open>
  The values the example runs below are made of: a server message with a tag and zero
  fields, a remote end that delivers a list of messages and then closes the connection
  while every send succeeds, an empty world, and an established client whose control
  channel will deliver a given sequence.
\<close>

definition server_message :: "string \<Rightarrow> ServerMessage" where
  "server_message tag = \<lparr>sm_Type = tag, sm_Challenge = uuid_Nil, sm_Port = 0,
     sm_Heartbeat = False, sm_Connection = uuid_Nil, sm_Error = []\<rparr>"

definition closed_by_peer :: "(error + ServerMessage) stream" where
  "closed_by_peer = sconst (Inl (errorString ''EOF''))"

definition mock_server :: "ServerMessage list \<Rightarrow> Peer" where
  "mock_server ms = \<lparr>replies = map Inr ms @- closed_by_peer, send_results = sconst None\<rparr>"

definition empty_world :: World where
  "empty_world = \<lparr>socks = [], logs = [], goroutines = []\<rparr>"

definition established_client :: "(error + ServerMessage) stream \<Rightarrow> Client" where
  "established_client inc =
     \<lparr>sp = 8901,
      cc = \<lparr>conn = \<lparr>fd = 0, peer = mock_server []\<rparr>, incoming = inc,
             outcomes = sconst None, sent = []\<rparr>,
      da = ''0.0.0.0'', lh = ''127.0.0.1'', lp = 3000, rp = 9090,
      auth = Some \<lparr>k = [1, 2, 3]\<rparr>, cid = ''TEST''\<rparr>"

text \<open>A stand-in keyed hash for the example runs: 32 bytes taken from the key, the
  message and padding.\<close>

definition toy_hmac :: keyed_hash where
  "toy_hmac key msg = take 32 (key @ msg @ replicate 32 0)"

text \<open>Two runs of the handler. In both the server accepts the connection and answers the
  handshake. In the first the local service refuses the connection; in the second both
  connections are made and the copy towards the server fails.\<close>

definition local_service_down :: HandlerEnv where
  "local_service_down =
     \<lparr>server_dial = Inr (mock_server
        [(server_message MtChallenge)\<lparr>sm_Challenge := replicate 16 7\<rparr>,
         (server_message MtFreePort)\<lparr>sm_Port := 5000\<rparr>]),
      local_dial = Inl (errorString ''connection refused''),
      copy_down = Ends None, copy_up = Ends None, up_first = False\<rparr>"

definition upload_fails :: HandlerEnv where
  "upload_fails =
     \<lparr>server_dial = Inr (mock_server
        [(server_message MtChallenge)\<lparr>sm_Challenge := replicate 16 7\<rparr>,
         (server_message MtFreePort)\<lparr>sm_Port := 5000\<rparr>]),
      local_dial = Inr (mock_server []),
      copy_down = Ends None, copy_up = Ends (Some (errorString ''broken pipe'')),
      up_first = True\<rparr>"

section \<open>Properties of the library functions\<close>

subsection \<open>Hexadecimal digits\<close>

lemma fifteen_mask: "(0x0f::byte) = mask 4"
  by (simp add: mask_eq_exp_minus_1)

lemma hi_nibble: "unat (drop_bit 4 (v::byte)) < 16"
proof -
  have "unat v < 256" using unsigned_less[of v, where 'a=nat] by simp
  then show ?thesis by (simp add: drop_bit_eq_div unat_div_distrib)
qed

lemma lo_nibble: "unat ((v::byte) AND 0x0f) < 16"
  unfolding fifteen_mask
  by (simp add: take_bit_eq_mask[symmetric] take_bit_eq_mod unat_mod_distrib)

lemma nibble_cases: 
  assumes "unat (n::byte) < 16" 
  shows "n \<in> {0,1,2,3,4,5,6,7,8,9,10,11,12,13,14,15}"
proof -
  have "unat n = 0 \<or> unat n = 1 \<or> unat n = 2 \<or> unat n = 3 \<or> unat n = 4 \<or> unat n = 5 \<or> unat n = 6 \<or> unat n = 7
     \<or> unat n = 8 \<or> unat n = 9 \<or> unat n = 10 \<or> unat n = 11 \<or> unat n = 12 \<or> unat n = 13 \<or> unat n = 14 \<or> unat n = 15"
    using assms by arith
  moreover have "n = of_nat (unat n)" by simp
  ultimately show ?thesis
    by (elim disjE) simp_all
qed

lemma rev_hex_nibble: "unat (n::byte) < 16 \<Longrightarrow> reverseHexTable (hextable ! unat n) = n"
  using nibble_cases[of n] by (auto simp: reverseHexTable_def hextable_def)

lemma nibble_le: "unat (n::byte) < 16 \<Longrightarrow> \<not> n > 0x0f"
  by (simp add: word_less_nat_alt)

lemma nibbles_join: "push_bit 4 (drop_bit 4 (v::byte)) OR (v AND 0x0f) = v"
  unfolding fifteen_mask
  by (rule bit_word_eqI) (auto simp: bit_simps)

lemma Decode_Encode: "DecodeString (EncodeToString bs) = (bs, None)"
  by (induction bs) (simp_all add: rev_hex_nibble hi_nibble lo_nibble nibble_le nibbles_join)

subsection \<open>The decoder accepts exactly the hexadecimal strings\<close>

lemma char_in_range:
  assumes "(of_char c :: nat) \<in> of_char ` set ds"
  shows "c \<in> set ds"
proof -
  from assms obtain d where d: "d \<in> set ds" "(of_char c :: nat) = of_char d" by blast
  from d(2) have "c = d" by (simp only: of_char_eq_iff)
  with d(1) show ?thesis by simp
qed

lemma reverseHexTable_digit: "hex_digit c \<Longrightarrow> \<not> reverseHexTable c > 0x0f"
  by (auto simp: hex_digit_def reverseHexTable_def)

lemma reverseHexTable_other: "\<not> hex_digit c \<Longrightarrow> reverseHexTable c = 0xff"
proof -
  assume nd: "\<not> hex_digit c"
  let ?n = "of_char c :: nat"
  have a: "\<not> (48 \<le> ?n \<and> ?n \<le> 57)"
  proof
    assume "48 \<le> ?n \<and> ?n \<le> 57"
    then have "?n \<in> of_char ` set ''0123456789''" by (simp; arith)
    then have "c \<in> set ''0123456789''" by (rule char_in_range)
    then show False using nd by (auto simp: hex_digit_def)
  qed
  have b: "\<not> (65 \<le> ?n \<and> ?n \<le> 70)"
  proof
    assume "65 \<le> ?n \<and> ?n \<le> 70"
    then have "?n \<in> of_char ` set ''ABCDEF''" by (simp; arith)
    then have "c \<in> set ''ABCDEF''" by (rule char_in_range)
    then show False using nd by (auto simp: hex_digit_def)
  qed
  have c: "\<not> (97 \<le> ?n \<and> ?n \<le> 102)"
  proof
    assume "97 \<le> ?n \<and> ?n \<le> 102"
    then have "?n \<in> of_char ` set ''abcdef''" by (simp; arith)
    then have "c \<in> set ''abcdef''" by (rule char_in_range)
    then show False using nd by (auto simp: hex_digit_def)
  qed
  show ?thesis unfolding reverseHexTable_def Let_def by (simp only: a b c if_False)
qed

lemma reverseHexTable_gt: "reverseHexTable c > 0x0f \<longleftrightarrow> \<not> hex_digit c"
  using reverseHexTable_digit[of c] reverseHexTable_other[of c] by auto

lemma DecodeString_ok: "snd (DecodeString s) = None \<longleftrightarrow> valid_hex s"
  by (induction s rule: DecodeString.induct)
     (auto simp: valid_hex_def reverseHexTable_gt Let_def split: prod.splits)

lemma DecodeString_length: "length (fst (DecodeString s)) \<le> length s div 2"
  by (induction s rule: DecodeString.induct) (auto simp: Let_def split: prod.splits)

lemma DecodeString_length_ok: "valid_hex s \<Longrightarrow> length (fst (DecodeString s)) = length s div 2"
  by (induction s rule: DecodeString.induct) (auto simp: valid_hex_def reverseHexTable_gt Let_def split: prod.splits)

subsection \<open>Comparison in constant time\<close>

lemma xor_zero_eq: "(x::byte) XOR y = 0 \<Longrightarrow> x = y"
  by (metis bit.xor_left_self xor.right_neutral)

lemma ByteEq_same: "ConstantTimeByteEq x x = 1"
  by (simp add: ConstantTimeByteEq_def drop_bit_eq_div uint_div_distrib)

lemma ByteEq_diff: assumes "x \<noteq> y" shows "ConstantTimeByteEq x y = 0"
proof -
  define z where "z = x XOR y"
  have nz: "z \<noteq> 0" using assms xor_zero_eq by (auto simp add: z_def)
  have "unat z < 256" using unsigned_less[of z, where 'a=nat] by simp
  have u: "unat (ucast z :: 32 word) = unat z" using \<open>unat z < 256\<close> by (simp add: unsigned_ucast_eq take_bit_nat_eq_self)
  have "(ucast z :: 32 word) \<noteq> 0" using nz u by (metis unat_eq_zero)
  then have "unat ((ucast z :: 32 word) - 1) = unat z - 1" 
    using u by (simp add: unat_minus_one)
  then have "unat ((ucast z :: 32 word) - 1) < 2^31" using \<open>unat z < 256\<close> by simp
  then have "drop_bit 31 ((ucast z :: 32 word) - 1) = 0"
    by (simp add: drop_bit_eq_div word_eq_iff_unsigned[where 'a=nat] unat_div_distrib)
  then show ?thesis by (simp add: ConstantTimeByteEq_def z_def)
qed

lemma ConstantTimeByteEq_eq: "ConstantTimeByteEq x y = (if x = y then 1 else 0)"
  by (simp add: ByteEq_same ByteEq_diff)

lemma fold_or_zero: "fold (\<lambda>(a, b) v. v OR (a XOR b)) xs (acc::byte) = 0 \<longleftrightarrow> acc = 0 \<and> (\<forall>(a,b)\<in>set xs. a = b)"
proof (induction xs arbitrary: acc)
  case Nil
  show ?case by simp
next
  case (Cons p xs)
  obtain a b where p: "p = (a, b)" by (cases p)
  have "a XOR b = 0 \<longleftrightarrow> a = b" using xor_zero_eq[of a b] by auto
  then show ?case using Cons.IH[of "acc OR (a XOR b)"] by (auto simp: p or_eq_0_iff)
qed

lemma ConstantTimeCompare_eq: "ConstantTimeCompare x y = (if x = y then 1 else 0)"
proof (cases "length x = length y")
  case False
  then show ?thesis by (auto simp: ConstantTimeCompare_def)
next
  case True
  have "(\<forall>(a,b)\<in>set (zip x y). a = b) \<longleftrightarrow> x = y"
    using True by (auto simp: list_eq_iff_zip_eq)
  then show ?thesis using True
    by (simp add: ConstantTimeCompare_def ConstantTimeByteEq_eq fold_or_zero)
qed

lemma hmac_Equal_iff: "hmac_Equal x y \<longleftrightarrow> x = y"
  by (simp add: hmac_Equal_def ConstantTimeCompare_eq)

section \<open>Properties of the authenticator\<close>

text \<open>
  C1. An answer generated for a challenge validates for the same challenge under the same
  key: for every keyed hash function, every authenticator \<open>a\<close> (in particular the one
  \<^verbatim>\<open>NewAuthenticator\<close> derives from any secret) and every challenge \<open>ch\<close>,
  \<open>ValidateAnswer\<close> returns true on the answer \<open>GenerateAnswer\<close> produces.
\<close>

theorem generated_answer_validates:
  "ValidateAnswer hmac a ch (GenerateAnswer hmac a ch) \<and>
   ValidateAnswer hmac (NewAuthenticator sum256 secret) ch
     (GenerateAnswer hmac (NewAuthenticator sum256 secret) ch)"
  by (simp add: ValidateAnswer_def GenerateAnswer_def Decode_Encode hmac_Equal_iff)

theorem generated_answer_validates_witness:
  "GenerateAnswer (\<lambda>key msg. key @ msg) (NewAuthenticator (\<lambda>s. s) ''k'') [0xAB] = ''6bab'' \<and>
   ValidateAnswer (\<lambda>key msg. key @ msg) (NewAuthenticator (\<lambda>s. s) ''k'') [0xAB] ''6bab''"
proof -
  have g: "GenerateAnswer (\<lambda>key msg. key @ msg) (NewAuthenticator (\<lambda>s. s) ''k'') [0xAB] = ''6bab''"
    by (simp add: GenerateAnswer_def NewAuthenticator_def bytes_of_string_def byte_of_char_def
        hextable_def drop_bit_eq_div fifteen_mask take_bit_eq_mask[symmetric] take_bit_eq_mod
        unat_div_distrib unat_mod_distrib)
  show ?thesis
    using generated_answer_validates [of "\<lambda>key msg. key @ msg" "NewAuthenticator (\<lambda>s. s) ''k''" "[0xAB]"]
    by (simp add: g)
qed

text \<open>
  An answer generated under one key validates under another key exactly when the keyed
  hash gives both keys the same digest for the challenge. Whether two different keys can
  do that is a property of the hash function, which is a parameter here.
\<close>

lemma cross_validation_iff:
  "ValidateAnswer hmac a2 ch (GenerateAnswer hmac a1 ch) \<longleftrightarrow> hmac (k a1) ch = hmac (k a2) ch"
  by (auto simp: ValidateAnswer_def GenerateAnswer_def Decode_Encode hmac_Equal_iff)

text \<open>
  C7. \<open>ValidateAnswer\<close> fails closed. It is a total function into the booleans: the one
  error that can arise inside, the decoder's, is turned into \<open>False\<close>. Given that the
  keyed hash returns a digest of \<open>sha256_Size\<close> bytes, it returns \<open>False\<close> on every
  answer that is not valid hex, on the empty answer, and on every valid hex answer whose
  decoded length is not the digest length.
\<close>

theorem validate_answer_fails_closed:
  assumes "length (hmac (k a) ch) = sha256_Size"
  shows "(\<not> valid_hex ans \<longrightarrow> ValidateAnswer hmac a ch ans = False) \<and>
         ValidateAnswer hmac a ch [] = False \<and>
         (valid_hex ans \<and> length (fst (DecodeString ans)) \<noteq> sha256_Size \<longrightarrow>
            ValidateAnswer hmac a ch ans = False)"
proof (intro conjI impI)
  assume "\<not> valid_hex ans"
  then have "snd (DecodeString ans) \<noteq> None" by (simp add: DecodeString_ok)
  then show "ValidateAnswer hmac a ch ans = False"
    by (cases "DecodeString ans") (auto simp: ValidateAnswer_def)
next
  have "hmac (k a) ch \<noteq> []" using assms by (auto simp: sha256_Size_def)
  then show "ValidateAnswer hmac a ch [] = False"
    by (simp add: ValidateAnswer_def hmac_Equal_iff)
next
  assume "valid_hex ans \<and> length (fst (DecodeString ans)) \<noteq> sha256_Size"
  then have "hmac (k a) ch \<noteq> fst (DecodeString ans)" using assms by auto
  then show "ValidateAnswer hmac a ch ans = False"
    by (cases "DecodeString ans") (auto simp: ValidateAnswer_def hmac_Equal_iff)
qed

theorem validate_answer_fails_closed_witness:
  "length (take 32 ([1] @ [2] @ replicate 32 (0::byte))) = sha256_Size \<and>
   \<not> valid_hex ''zz'' \<and>
   ValidateAnswer (\<lambda>key msg. take 32 (key @ msg @ replicate 32 0)) \<lparr>k = [1]\<rparr> [2] ''zz'' = False \<and>
   ValidateAnswer (\<lambda>key msg. take 32 (key @ msg @ replicate 32 0)) \<lparr>k = [1]\<rparr> [2] [] = False \<and>
   valid_hex ''00fF'' \<and> fst (DecodeString ''00fF'') = [0, 0xff] \<and>
   ValidateAnswer (\<lambda>key msg. take 32 (key @ msg @ replicate 32 0)) \<lparr>k = [1]\<rparr> [2] ''00fF'' = False"
proof -
  have l: "length ((\<lambda>key msg. take 32 (key @ msg @ replicate 32 (0::byte))) (k \<lparr>k = [1]\<rparr>) [2]) = sha256_Size"
    by (simp add: sha256_Size_def)
  have v1: "\<not> valid_hex ''zz''" by (simp add: valid_hex_def hex_digit_def)
  have v2: "valid_hex ''00fF''" by (simp add: valid_hex_def hex_digit_def)
  have d: "fst (DecodeString ''00fF'') = [0, 0xff]"
    by (simp add: reverseHexTable_def)
  show ?thesis
    using validate_answer_fails_closed
        [of "\<lambda>key msg. take 32 (key @ msg @ replicate 32 0)" "\<lparr>k = [1]\<rparr>" "[2]" "''zz''"]
      validate_answer_fails_closed
        [of "\<lambda>key msg. take 32 (key @ msg @ replicate 32 0)" "\<lparr>k = [1]\<rparr>" "[2]" "''00fF''"]
      l v1 v2 d
    by (simp add: sha256_Size_def)
qed

section \<open>Message tags\<close>

lemma tags_distinct:
  "MtChallenge \<noteq> MtFreePort" "MtChallenge \<noteq> MtHello" "MtHello \<noteq> MtError"
  "MtHello \<noteq> MtChallenge" "MtChallenge \<noteq> MtError" "MtFreePort \<noteq> MtChallenge"
  "MtHeartbeat \<noteq> MtHello" "MtHeartbeat \<noteq> MtChallenge" "MtError \<noteq> MtHello"
  "MtError \<noteq> MtChallenge" "MtError \<noteq> MtHeartbeat" "MtError \<noteq> MtConnection"
  "MtConnection \<noteq> MtHello" "MtConnection \<noteq> MtChallenge" "MtConnection \<noteq> MtHeartbeat"
  by (simp_all add: MtChallenge_def MtFreePort_def MtHello_def MtError_def MtHeartbeat_def
      MtConnection_def)

lemmas tag_defs =
  MtChallenge_def MtHeartbeat_def MtConnection_def MtAuthenticate_def MtFreePort_def
  MtHello_def MtError_def

section \<open>Properties of the client handshake\<close>

text \<open>
  C5. When the first message received is not tagged \<^verbatim>\<open>Challenge\<close>,
  \<^verbatim>\<open>PerformClientHandshake\<close> fails with the error "no secret provided / invalid secret
  key", and it has sent nothing: the messages that went out are those of before, and no
  send was attempted.
\<close>

theorem handshake_first_message_not_challenge:
  assumes "shd (incoming stream) = Inr msg" and "sm_Type msg \<noteq> MtChallenge"
  shows "fst (PerformClientHandshake hmac a stream clientId) =
           Inl (errorString ''no secret provided / invalid secret key'') \<and>
         sent (snd (PerformClientHandshake hmac a stream clientId)) = sent stream \<and>
         outcomes (snd (PerformClientHandshake hmac a stream clientId)) = outcomes stream"
  using assms by (simp add: PerformClientHandshake_def Recv_def)

theorem handshake_first_message_not_challenge_witness:
  "fst (PerformClientHandshake toy_hmac \<lparr>k = [1]\<rparr>
          (NewCodec \<lparr>fd = 0, peer = mock_server [(server_message MtHello)\<lparr>sm_Port := 9090\<rparr>]\<rparr>)
          ''TEST'') =
     Inl (errorString ''no secret provided / invalid secret key'') \<and>
   sent (snd (PerformClientHandshake toy_hmac \<lparr>k = [1]\<rparr>
          (NewCodec \<lparr>fd = 0, peer = mock_server [(server_message MtHello)\<lparr>sm_Port := 9090\<rparr>]\<rparr>)
          ''TEST'')) = []"
  using handshake_first_message_not_challenge
    [where stream = "NewCodec \<lparr>fd = 0,
         peer = mock_server [(server_message MtHello)\<lparr>sm_Port := 9090\<rparr>]\<rparr>"
       and msg = "(server_message MtHello)\<lparr>sm_Port := 9090\<rparr>"
       and hmac = toy_hmac and a = "\<lparr>k = [1]\<rparr>" and clientId = "''TEST''"]
  by (simp add: NewCodec_def mock_server_def server_message_def tags_distinct)

text \<open>
  C6. When the first message is a challenge and the \<^verbatim>\<open>Authenticate\<close> message has gone
  out (it carries the answer to the challenge and the client identifier), the second
  message received decides: tagged \<^verbatim>\<open>FreePort\<close>, the handshake returns the port the
  message carries; with any other tag it fails with the error "rejection response from
  server".
\<close>

theorem handshake_second_message:
  assumes "shd (incoming stream) = Inr msg" and "sm_Type msg = MtChallenge"
    and "shd (outcomes stream) = None"
    and "shd (stl (incoming stream)) = Inr msg'"
  shows "sent (snd (PerformClientHandshake hmac a stream clientId)) =
           sent stream @ [\<lparr>cm_Type = MtAuthenticate,
                            cm_Authenticate = GenerateAnswer hmac a (sm_Challenge msg),
                            cm_Port = 0, cm_Accept = uuid_Nil, cm_ClientId = clientId\<rparr>] \<and>
         fst (PerformClientHandshake hmac a stream clientId) =
           (if sm_Type msg' = MtFreePort then Inr (sm_Port msg')
            else Inl (errorString ''rejection response from server''))"
  using assms by (simp add: PerformClientHandshake_def Recv_def Send_def)

theorem handshake_second_message_witness:
  "fst (PerformClientHandshake toy_hmac \<lparr>k = [1]\<rparr>
          (NewCodec \<lparr>fd = 0, peer = mock_server
             [(server_message MtChallenge)\<lparr>sm_Challenge := replicate 16 7\<rparr>,
              (server_message MtFreePort)\<lparr>sm_Port := 5000\<rparr>]\<rparr>) ''TEST'') = Inr 5000 \<and>
   fst (PerformClientHandshake toy_hmac \<lparr>k = [1]\<rparr>
          (NewCodec \<lparr>fd = 0, peer = mock_server
             [(server_message MtChallenge)\<lparr>sm_Challenge := replicate 16 7\<rparr>,
              (server_message MtError)\<lparr>sm_Error := ''unknown client''\<rparr>]\<rparr>) ''TEST'') =
     Inl (errorString ''rejection response from server'')"
  using handshake_second_message
    [where stream = "NewCodec \<lparr>fd = 0, peer = mock_server
             [(server_message MtChallenge)\<lparr>sm_Challenge := replicate 16 7\<rparr>,
              (server_message MtFreePort)\<lparr>sm_Port := 5000\<rparr>]\<rparr>"
       and msg = "(server_message MtChallenge)\<lparr>sm_Challenge := replicate 16 7\<rparr>"
       and msg' = "(server_message MtFreePort)\<lparr>sm_Port := 5000\<rparr>"
       and hmac = toy_hmac and a = "\<lparr>k = [1]\<rparr>" and clientId = "''TEST''"]
    handshake_second_message
    [where stream = "NewCodec \<lparr>fd = 0, peer = mock_server
             [(server_message MtChallenge)\<lparr>sm_Challenge := replicate 16 7\<rparr>,
              (server_message MtError)\<lparr>sm_Error := ''unknown client''\<rparr>]\<rparr>"
       and msg = "(server_message MtChallenge)\<lparr>sm_Challenge := replicate 16 7\<rparr>"
       and msg' = "(server_message MtError)\<lparr>sm_Error := ''unknown client''\<rparr>"
       and hmac = toy_hmac and a = "\<lparr>k = [1]\<rparr>" and clientId = "''TEST''"]
  by (simp add: NewCodec_def mock_server_def server_message_def tag_defs)

section \<open>Properties of the control session\<close>

text \<open>
  C2. Establishing the control session. The connection to the server succeeds, the
  server replies with a challenge, then a \<^verbatim>\<open>FreePort\<close> message, then a third message, and
  the two sends of the client go out. If the third message is tagged \<^verbatim>\<open>Hello\<close>, the
  construction succeeds: the client has sent \<^verbatim>\<open>Authenticate\<close> with the hex encoding of
  the keyed hash of the challenge under the hash of the secret and with the client
  identifier, then \<^verbatim>\<open>Hello\<close> with the port of the \<^verbatim>\<open>FreePort\<close> message, and the remote
  port of the session is the port of the third message. If the third message is tagged
  \<^verbatim>\<open>Challenge\<close>, the construction fails with the error "server requires
  authentication, but no client secret was provided".
\<close>

theorem control_session_establishment:
  assumes "dial = Inr p"
    and "replies p = Inr m1 ## Inr m2 ## Inr m3 ## rest"
    and "shd (send_results p) = None" and "shd (stl (send_results p)) = None"
    and "sm_Type m1 = MtChallenge" and "sm_Type m2 = MtFreePort"
  shows "(sm_Type m3 = MtHello \<longrightarrow>
            (\<exists>c. fst (NewClient sum256 hmac dial sp' lh' lp' da' cid' s w) = Inr c \<and>
                 RemotePort c = sm_Port m3 \<and>
                 sent (cc c) =
                   [\<lparr>cm_Type = MtAuthenticate,
                      cm_Authenticate =
                        EncodeToString (hmac (sum256 (bytes_of_string s)) (sm_Challenge m1)),
                      cm_Port = 0, cm_Accept = uuid_Nil, cm_ClientId = cid'\<rparr>,
                    \<lparr>cm_Type = MtHello, cm_Authenticate = [], cm_Port = sm_Port m2,
                      cm_Accept = uuid_Nil, cm_ClientId = []\<rparr>])) \<and>
         (sm_Type m3 = MtChallenge \<longrightarrow>
            fst (NewClient sum256 hmac dial sp' lh' lp' da' cid' s w) =
              Inl (errorString
                ''server requires authentication, but no client secret was provided''))"
  using assms
  by (simp add: NewClient_def establishConnectionWithTimeout_def NewCodec_def
      PerformClientHandshake_def Recv_def Send_def GenerateAnswer_def NewAuthenticator_def
      processInitialServerMessage_def RemotePort_def tags_distinct Let_def)

theorem control_session_establishment_witness:
  "(\<exists>c. fst (NewClient (\<lambda>s. s) toy_hmac
            (Inr (mock_server
               [(server_message MtChallenge)\<lparr>sm_Challenge := replicate 16 7\<rparr>,
                (server_message MtFreePort)\<lparr>sm_Port := 5000\<rparr>,
                (server_message MtHello)\<lparr>sm_Port := 9090\<rparr>]))
            8901 ''127.0.0.1'' 3000 ''0.0.0.0'' ''TEST'' ''secret'' empty_world) = Inr c \<and>
        RemotePort c = 9090 \<and>
        map cm_Type (sent (cc c)) = [MtAuthenticate, MtHello] \<and>
        map cm_Port (sent (cc c)) = [0, 5000]) \<and>
   fst (NewClient (\<lambda>s. s) toy_hmac
            (Inr (mock_server
               [(server_message MtChallenge)\<lparr>sm_Challenge := replicate 16 7\<rparr>,
                (server_message MtFreePort)\<lparr>sm_Port := 5000\<rparr>,
                (server_message MtChallenge)\<lparr>sm_Challenge := replicate 16 8\<rparr>]))
            8901 ''127.0.0.1'' 3000 ''0.0.0.0'' ''TEST'' ''secret'' empty_world) =
     Inl (errorString ''server requires authentication, but no client secret was provided'')"
proof -
  have a: "\<exists>c. fst (NewClient (\<lambda>s. s) toy_hmac
            (Inr (mock_server
               [(server_message MtChallenge)\<lparr>sm_Challenge := replicate 16 7\<rparr>,
                (server_message MtFreePort)\<lparr>sm_Port := 5000\<rparr>,
                (server_message MtHello)\<lparr>sm_Port := 9090\<rparr>]))
            8901 ''127.0.0.1'' 3000 ''0.0.0.0'' ''TEST'' ''secret'' empty_world) = Inr c \<and>
        RemotePort c = 9090 \<and>
        map cm_Type (sent (cc c)) = [MtAuthenticate, MtHello] \<and>
        map cm_Port (sent (cc c)) = [0, 5000]"
    using control_session_establishment
      [where dial = "Inr (mock_server
               [(server_message MtChallenge)\<lparr>sm_Challenge := replicate 16 7\<rparr>,
                (server_message MtFreePort)\<lparr>sm_Port := 5000\<rparr>,
                (server_message MtHello)\<lparr>sm_Port := 9090\<rparr>])"
        and p = "mock_server
               [(server_message MtChallenge)\<lparr>sm_Challenge := replicate 16 7\<rparr>,
                (server_message MtFreePort)\<lparr>sm_Port := 5000\<rparr>,
                (server_message MtHello)\<lparr>sm_Port := 9090\<rparr>]"
        and ?m1.0 = "(server_message MtChallenge)\<lparr>sm_Challenge := replicate 16 7\<rparr>"
        and ?m2.0 = "(server_message MtFreePort)\<lparr>sm_Port := 5000\<rparr>"
        and ?m3.0 = "(server_message MtHello)\<lparr>sm_Port := 9090\<rparr>"
        and rest = closed_by_peer
        and ?sum256.0 = "\<lambda>s. s" and hmac = toy_hmac and sp' = 8901 and lh' = "''127.0.0.1''"
        and lp' = 3000 and da' = "''0.0.0.0''" and cid' = "''TEST''" and s = "''secret''"
        and w = empty_world]
    by (auto simp: mock_server_def server_message_def tags_distinct)
  have b: "fst (NewClient (\<lambda>s. s) toy_hmac
            (Inr (mock_server
               [(server_message MtChallenge)\<lparr>sm_Challenge := replicate 16 7\<rparr>,
                (server_message MtFreePort)\<lparr>sm_Port := 5000\<rparr>,
                (server_message MtChallenge)\<lparr>sm_Challenge := replicate 16 8\<rparr>]))
            8901 ''127.0.0.1'' 3000 ''0.0.0.0'' ''TEST'' ''secret'' empty_world) =
     Inl (errorString ''server requires authentication, but no client secret was provided'')"
    using control_session_establishment
      [where dial = "Inr (mock_server
               [(server_message MtChallenge)\<lparr>sm_Challenge := replicate 16 7\<rparr>,
                (server_message MtFreePort)\<lparr>sm_Port := 5000\<rparr>,
                (server_message MtChallenge)\<lparr>sm_Challenge := replicate 16 8\<rparr>])"
        and p = "mock_server
               [(server_message MtChallenge)\<lparr>sm_Challenge := replicate 16 7\<rparr>,
                (server_message MtFreePort)\<lparr>sm_Port := 5000\<rparr>,
                (server_message MtChallenge)\<lparr>sm_Challenge := replicate 16 8\<rparr>]"
        and ?m1.0 = "(server_message MtChallenge)\<lparr>sm_Challenge := replicate 16 7\<rparr>"
        and ?m2.0 = "(server_message MtFreePort)\<lparr>sm_Port := 5000\<rparr>"
        and ?m3.0 = "(server_message MtChallenge)\<lparr>sm_Challenge := replicate 16 8\<rparr>"
        and rest = closed_by_peer
        and ?sum256.0 = "\<lambda>s. s" and hmac = toy_hmac and sp' = 8901 and lh' = "''127.0.0.1''"
        and lp' = 3000 and da' = "''0.0.0.0''" and cid' = "''TEST''" and s = "''secret''"
        and w = empty_world]
    by (simp add: mock_server_def server_message_def tags_distinct)
  from a b show ?thesis by (rule conjI)
qed

subsection \<open>The control loop\<close>

lemma Listen_step:
  "shd (incoming (cc c)) = Inr msg \<Longrightarrow>
   Listen c w =
     (case processServerMessage (c\<lparr>cc := (cc c)\<lparr>incoming := stl (incoming (cc c))\<rparr>\<rparr>) msg w of
        (Some err, w') \<Rightarrow> Some (Some err, c\<lparr>cc := (cc c)\<lparr>incoming := stl (incoming (cc c))\<rparr>\<rparr>, w')
      | (None, w') \<Rightarrow> Listen (c\<lparr>cc := (cc c)\<lparr>incoming := stl (incoming (cc c))\<rparr>\<rparr>) w')"
  by (subst Listen.simps) (simp add: Recv_def)

lemma Listen_recv_error:
  "shd (incoming (cc c)) = Inl err \<Longrightarrow>
   Listen c w = Some (Some (Errorf_w ''failed to receive server message: '' err),
                      c\<lparr>cc := (cc c)\<lparr>incoming := stl (incoming (cc c))\<rparr>\<rparr>, w)"
  by (subst Listen.simps) (simp add: Recv_def)

lemma processServerMessage_error:
  "processServerMessage c msg w = (Some e, w') \<Longrightarrow> loop_error e"
  unfolding processServerMessage_def
  by (auto simp: starts_with_def split: if_splits)

lemma Listen_returns_error:
  assumes "Listen c0 w0 = Some y0"
  shows "\<exists>e. fst y0 = Some e \<and> loop_error e"
proof (rule Listen.raw_induct[where P = "\<lambda>_ _ y. \<exists>e. fst y = Some e \<and> loop_error e", OF _ assms])
  fix Listen' c w y
  assume IH: "\<And>c w y. Listen' c w = Some y \<Longrightarrow> \<exists>e. fst y = Some e \<and> loop_error e"
    and step: "(case Recv (cc c) of
        (Inl err, cc') \<Rightarrow>
          Some (Some (Errorf_w ''failed to receive server message: '' err), c\<lparr>cc := cc'\<rparr>, w)
      | (Inr msg, cc') \<Rightarrow>
          (case processServerMessage (c\<lparr>cc := cc'\<rparr>) msg w of
             (Some err, w') \<Rightarrow> Some (Some err, c\<lparr>cc := cc'\<rparr>, w')
           | (None, w') \<Rightarrow> Listen' (c\<lparr>cc := cc'\<rparr>) w')) = Some y"
  show "\<exists>e. fst y = Some e \<and> loop_error e"
  proof (cases "Recv (cc c)")
    case (Pair r cc')
    show ?thesis
    proof (cases r)
      case (Inl err)
      with Pair step show ?thesis by (auto simp: Errorf_w_def)
    next
      case (Inr msg)
      show ?thesis
      proof (cases "processServerMessage (c\<lparr>cc := cc'\<rparr>) msg w")
        case (Pair r' w')
        show ?thesis
        proof (cases r')
          case None
          with Pair \<open>Recv (cc c) = (r, cc')\<close> Inr step IH show ?thesis by simp
        next
          case (Some e)
          with Pair \<open>Recv (cc c) = (r, cc')\<close> Inr step processServerMessage_error[of "c\<lparr>cc := cc'\<rparr>" msg w e w']
          show ?thesis by auto
        qed
      qed
    qed
  qed
qed

lemma Listen_returns_on_failure:
  assumes "\<forall>m \<in> set ms. sm_Type m \<in> {MtHello, MtChallenge, MtHeartbeat, MtConnection}"
    and "incoming (cc c) = map Inr ms @- (Inl err ## rest)"
  shows "\<exists>c' w'. Listen c w =
           Some (Some (Errorf_w ''failed to receive server message: '' err), c', w')"
  using assms
proof (induction ms arbitrary: c w)
  case Nil
  then have "shd (incoming (cc c)) = Inl err" by simp
  from Listen_recv_error[OF this] show ?case by blast
next
  case (Cons m ms)
  let ?c = "c\<lparr>cc := (cc c)\<lparr>incoming := stl (incoming (cc c))\<rparr>\<rparr>"
  have hd: "shd (incoming (cc c)) = Inr m" using Cons.prems(2) by simp
  have tl: "incoming (cc ?c) = map Inr ms @- (Inl err ## rest)" using Cons.prems(2) by simp
  have tag: "sm_Type m \<in> {MtHello, MtChallenge, MtHeartbeat, MtConnection}"
    using Cons.prems(1) by simp
  then obtain w1 where p: "processServerMessage ?c m w = (None, w1)"
    by (auto simp: processServerMessage_def tags_distinct)
  have "Listen c w = Listen ?c w1"
    by (simp add: Listen_step[OF hd] p)
  moreover have "\<exists>c' w'. Listen ?c w1 =
           Some (Some (Errorf_w ''failed to receive server message: '' err), c', w')"
    using Cons.IH[of ?c w1] Cons.prems(1) tl by simp
  ultimately show ?case by simp
qed

lemma processServerMessage_result_indep:
  "fst (processServerMessage c msg w) = fst (processServerMessage c msg w2)"
  by (simp add: processServerMessage_def)

lemma Listen_world_indep_aux:
  assumes "Listen c0 w0 = Some y0"
  shows "\<forall>w2. \<exists>w2'. Listen c0 w2 = Some (fst y0, fst (snd y0), w2')"
proof (rule Listen.raw_induct
    [where P = "\<lambda>c w y. \<forall>w2. \<exists>w2'. Listen c w2 = Some (fst y, fst (snd y), w2')", OF _ assms])
  fix Listen' c w y
  assume IH: "\<And>c w y. Listen' c w = Some y \<Longrightarrow>
                \<forall>w2. \<exists>w2'. Listen c w2 = Some (fst y, fst (snd y), w2')"
    and step: "(case Recv (cc c) of
        (Inl err, cc') \<Rightarrow>
          Some (Some (Errorf_w ''failed to receive server message: '' err), c\<lparr>cc := cc'\<rparr>, w)
      | (Inr msg, cc') \<Rightarrow>
          (case processServerMessage (c\<lparr>cc := cc'\<rparr>) msg w of
             (Some err, w') \<Rightarrow> Some (Some err, c\<lparr>cc := cc'\<rparr>, w')
           | (None, w') \<Rightarrow> Listen' (c\<lparr>cc := cc'\<rparr>) w')) = Some y"
  obtain r cc' where recv: "Recv (cc c) = (r, cc')" by (cases "Recv (cc c)")
  show "\<forall>w2. \<exists>w2'. Listen c w2 = Some (fst y, fst (snd y), w2')"
  proof
    fix w2
    show "\<exists>w2'. Listen c w2 = Some (fst y, fst (snd y), w2')"
    proof (cases r)
      case (Inl err)
      with recv step have "y = (Some (Errorf_w ''failed to receive server message: '' err), c\<lparr>cc := cc'\<rparr>, w)"
        by simp
      moreover have "Listen c w2 = Some (Some (Errorf_w ''failed to receive server message: '' err), c\<lparr>cc := cc'\<rparr>, w2)"
        by (subst Listen.simps) (simp add: recv Inl)
      ultimately show ?thesis by simp
    next
      case (Inr msg)
      obtain r1 w' where p1: "processServerMessage (c\<lparr>cc := cc'\<rparr>) msg w = (r1, w')"
        by (cases "processServerMessage (c\<lparr>cc := cc'\<rparr>) msg w")
      obtain r2 w2' where p2: "processServerMessage (c\<lparr>cc := cc'\<rparr>) msg w2 = (r2, w2')"
        by (cases "processServerMessage (c\<lparr>cc := cc'\<rparr>) msg w2")
      have same: "r2 = r1"
        using processServerMessage_result_indep[of "c\<lparr>cc := cc'\<rparr>" msg w w2] p1 p2 by simp
      have unf: "Listen c w2 = (case r1 of Some err \<Rightarrow> Some (Some err, c\<lparr>cc := cc'\<rparr>, w2')
           | None \<Rightarrow> Listen (c\<lparr>cc := cc'\<rparr>) w2')"
        by (subst Listen.simps) (simp add: recv Inr p2 same)
      show ?thesis
      proof (cases r1)
        case None
        with recv Inr p1 step have "Listen' (c\<lparr>cc := cc'\<rparr>) w' = Some y" by simp
        from IH[OF this] obtain w3 where "Listen (c\<lparr>cc := cc'\<rparr>) w2' = Some (fst y, fst (snd y), w3)"
          by blast
        then show ?thesis using unf None by simp
      next
        case (Some err)
        with recv Inr p1 step have "y = (Some err, c\<lparr>cc := cc'\<rparr>, w')" by simp
        then show ?thesis using unf Some by simp
      qed
    qed
  qed
qed

lemma Listen_world_indep:
  "map_option (\<lambda>(r, c', _). (r, c')) (Listen c w) =
   map_option (\<lambda>(r, c', _). (r, c')) (Listen c w2)"
proof (cases "Listen c w")
  case None
  show ?thesis
  proof (cases "Listen c w2")
    case n2: None
    with None show ?thesis by simp
  next
    case (Some y)
    from Listen_world_indep_aux[OF this] have "\<exists>w'. Listen c w = Some (fst y, fst (snd y), w')"
      by blast
    with None show ?thesis by simp
  qed
next
  case (Some y)
  from Listen_world_indep_aux[OF this] obtain w' where "Listen c w2 = Some (fst y, fst (snd y), w')"
    by blast
  with Some show ?thesis by (cases y) auto
qed

text \<open>
  C3. The dispatch of the control loop on the message it has just received. A
  \<^verbatim>\<open>Heartbeat\<close>, a \<^verbatim>\<open>Hello\<close> or a \<^verbatim>\<open>Challenge\<close> is not fatal: the message is processed
  without error, a stray \<^verbatim>\<open>Hello\<close> or \<^verbatim>\<open>Challenge\<close> leaves one line in the log and
  nothing else, and the loop goes on with what follows on the channel. An \<^verbatim>\<open>Error\<close>
  ends the loop with the error "server error: " followed by the text of the message.
  A tag that is none of the tags the loop knows (those three, \<^verbatim>\<open>Connection\<close>, which
  starts a handler, and \<^verbatim>\<open>Error\<close>) ends the loop with the error "received unexpected
  message type: " followed by the tag.
\<close>

theorem control_loop_dispatch:
  assumes "shd (incoming (cc c)) = Inr msg"
    and "c' = c\<lparr>cc := (cc c)\<lparr>incoming := stl (incoming (cc c))\<rparr>\<rparr>"
  shows "(sm_Type msg = MtHeartbeat \<longrightarrow>
            processServerMessage c' msg w = (None, w) \<and> Listen c w = Listen c' w) \<and>
         (sm_Type msg = MtHello \<longrightarrow>
            processServerMessage c' msg w =
              (None, log_Println ''Received an unexpected hello message'' w) \<and>
            Listen c w = Listen c' (log_Println ''Received an unexpected hello message'' w)) \<and>
         (sm_Type msg = MtChallenge \<longrightarrow>
            processServerMessage c' msg w =
              (None, log_Println ''Received an unexpected challenge message'' w) \<and>
            Listen c w =
              Listen c' (log_Println ''Received an unexpected challenge message'' w)) \<and>
         (sm_Type msg = MtError \<longrightarrow>
            Listen c w = Some (Some (errorString (''server error: '' @ sm_Error msg)), c', w)) \<and>
         (sm_Type msg \<notin> {MtHello, MtChallenge, MtHeartbeat, MtConnection, MtError} \<longrightarrow>
            Listen c w =
              Some (Some (errorString (''received unexpected message type: '' @ sm_Type msg)),
                    c', w))"
  unfolding assms(2)
  by (simp add: Listen_step[OF assms(1)] processServerMessage_def tags_distinct)

theorem control_loop_dispatch_witness:
  "map_option fst
     (Listen (established_client
        (Inr (server_message MtHeartbeat) ## Inr (server_message MtHello) ##
         Inr ((server_message MtError)\<lparr>sm_Error := ''bad client''\<rparr>) ## closed_by_peer))
        empty_world) =
   Some (Some (errorString ''server error: bad client'')) \<and>
   map_option fst
     (Listen (established_client (Inr (server_message MtFreePort) ## closed_by_peer))
        empty_world) =
   Some (Some (errorString ''received unexpected message type: FreePort''))"
proof -
  let ?hb = "server_message MtHeartbeat" and ?hello = "server_message MtHello"
    and ?err = "(server_message MtError)\<lparr>sm_Error := ''bad client''\<rparr>"
    and ?fp = "server_message MtFreePort"
  have 1: "Listen (established_client (Inr ?hb ## Inr ?hello ## Inr ?err ## closed_by_peer))
             empty_world =
           Listen (established_client (Inr ?hello ## Inr ?err ## closed_by_peer)) empty_world"
    using control_loop_dispatch
      [where c = "established_client (Inr ?hb ## Inr ?hello ## Inr ?err ## closed_by_peer)"
         and msg = ?hb and w = empty_world
         and c' = "established_client (Inr ?hello ## Inr ?err ## closed_by_peer)"]
    by (simp add: established_client_def server_message_def)
  have 2: "Listen (established_client (Inr ?hello ## Inr ?err ## closed_by_peer)) empty_world =
           Listen (established_client (Inr ?err ## closed_by_peer))
             (log_Println ''Received an unexpected hello message'' empty_world)"
    using control_loop_dispatch
      [where c = "established_client (Inr ?hello ## Inr ?err ## closed_by_peer)"
         and msg = ?hello and w = empty_world
         and c' = "established_client (Inr ?err ## closed_by_peer)"]
    by (simp add: established_client_def server_message_def)
  have 3: "Listen (established_client (Inr ?err ## closed_by_peer))
             (log_Println ''Received an unexpected hello message'' empty_world) =
           Some (Some (errorString ''server error: bad client''),
                 established_client closed_by_peer,
                 log_Println ''Received an unexpected hello message'' empty_world)"
    using control_loop_dispatch
      [where c = "established_client (Inr ?err ## closed_by_peer)"
         and msg = ?err and w = "log_Println ''Received an unexpected hello message'' empty_world"
         and c' = "established_client closed_by_peer"]
    by (simp add: established_client_def server_message_def)
  have 4: "Listen (established_client (Inr ?fp ## closed_by_peer)) empty_world =
           Some (Some (errorString ''received unexpected message type: FreePort''),
                 established_client closed_by_peer, empty_world)"
    using control_loop_dispatch
      [where c = "established_client (Inr ?fp ## closed_by_peer)"
         and msg = ?fp and w = empty_world and c' = "established_client closed_by_peer"]
    by (simp add: established_client_def server_message_def MtFreePort_def MtHello_def
        MtChallenge_def MtHeartbeat_def MtConnection_def MtError_def)
  show ?thesis by (simp add: 1 2 3 4)
qed

text \<open>
  C10. \<^verbatim>\<open>Listen\<close> never returns nil. Whenever it returns, it returns an error: the
  receive failure, wrapped, or the error that processing a message gave. And it does
  return on a receive failure, such as the control connection being closed, after any
  number of messages that are not fatal: the failure comes back wrapped in "failed to
  receive server message: ".
\<close>

theorem listen_never_returns_nil:
  "(\<forall>r c' w'. Listen c w = Some (r, c', w') \<longrightarrow> (\<exists>e. r = Some e \<and> loop_error e)) \<and>
   (\<forall>ms err rest.
      (\<forall>m \<in> set ms. sm_Type m \<in> {MtHello, MtChallenge, MtHeartbeat, MtConnection}) \<and>
      incoming (cc c) = map Inr ms @- (Inl err ## rest) \<longrightarrow>
      (\<exists>c' w'. Listen c w =
         Some (Some (Errorf_w ''failed to receive server message: '' err), c', w')))"
proof (intro conjI allI impI)
  fix r c' w'
  assume "Listen c w = Some (r, c', w')"
  from Listen_returns_error[OF this] show "\<exists>e. r = Some e \<and> loop_error e" by simp
next
  fix ms err rest
  assume "(\<forall>m \<in> set ms. sm_Type m \<in> {MtHello, MtChallenge, MtHeartbeat, MtConnection}) \<and>
      incoming (cc c) = map Inr ms @- (Inl err ## rest)"
  then show "\<exists>c' w'. Listen c w =
         Some (Some (Errorf_w ''failed to receive server message: '' err), c', w')"
    using Listen_returns_on_failure[of ms c err rest w] by blast
qed

theorem listen_never_returns_nil_witness:
  "\<exists>e. map_option fst
          (Listen (established_client
             (Inr (server_message MtHeartbeat) ## Inl (errorString ''EOF'') ## closed_by_peer))
             empty_world) = Some (Some e) \<and>
       loop_error e \<and> Error_msg e = ''failed to receive server message: EOF''"
proof -
  let ?c = "established_client
             (Inr (server_message MtHeartbeat) ## Inl (errorString ''EOF'') ## closed_by_peer)"
  note inst = listen_never_returns_nil [of ?c empty_world]
  have pre: "(\<forall>m \<in> set [server_message MtHeartbeat].
               sm_Type m \<in> {MtHello, MtChallenge, MtHeartbeat, MtConnection}) \<and>
             incoming (cc ?c) =
               map Inr [server_message MtHeartbeat] @- (Inl (errorString ''EOF'') ## closed_by_peer)"
    by (simp add: established_client_def server_message_def)
  from inst [THEN conjunct2, rule_format, OF pre]
  obtain c' w' where run:
    "Listen ?c empty_world =
       Some (Some (Errorf_w ''failed to receive server message: '' (errorString ''EOF'')),
             c', w')"
    by blast
  from inst [THEN conjunct1, rule_format, OF run]
  have "loop_error (Errorf_w ''failed to receive server message: '' (errorString ''EOF''))"
    by simp
  then show ?thesis by (simp add: run Errorf_w_def)
qed

section \<open>Properties of the tunnel connection handler\<close>

subsection \<open>Runs of the handler\<close>

lemma eg_Wait_None: "eg_Wait d u f = None \<Longrightarrow> d = Never_ends \<or> u = Never_ends"
  by (auto simp: eg_Wait_def split: copy_outcome.splits)

lemma handler_unfold:
  assumes "server_dial env = Inr p"
  shows "establishConnectionRoutine hmac c id' env w =
      defer_Close \<lparr>fd = length (socks w), peer = p\<rparr>
        (case (case auth c of
                 None \<Rightarrow> (None, NewCodec \<lparr>fd = length (socks w), peer = p\<rparr>)
               | Some a \<Rightarrow>
                   (case PerformClientHandshake hmac a
                           (NewCodec \<lparr>fd = length (socks w), peer = p\<rparr>) (cid c) of
                      (Inl err, rc') \<Rightarrow> (Some err, rc')
                    | (Inr _, rc') \<Rightarrow> (None, rc'))) of
           (Some err, rc1) \<Rightarrow>
             (Some (Some (Errorf_w ''client handshake failed: '' err)),
              w\<lparr>socks := socks w @ [True]\<rparr>)
         | (None, rc1) \<Rightarrow>
             (case Send rc1 \<lparr>cm_Type = ''Accept'', cm_Authenticate = [], cm_Port = 0,
                              cm_Accept = id', cm_ClientId = []\<rparr> of
                (Some err, rc2) \<Rightarrow>
                  (Some (Some (Errorf_w ''failed to send accept message: '' err)),
                   w\<lparr>socks := socks w @ [True]\<rparr>)
              | (None, rc2) \<Rightarrow>
                  (case establishConnectionWithTimeout (local_dial env) (lh c) (lp c)
                          (w\<lparr>socks := socks w @ [True]\<rparr>) of
                     (Inl err, w2) \<Rightarrow>
                       (Some (Some (Errorf_w
                          (''failed to connect to local host '' @ lh c @ '':'' @
                           itoa (unat (lp c)) @ '': '') err)), w2)
                   | (Inr lconn, w2) \<Rightarrow>
                       defer_Close lconn
                         (case eg_Wait (copy_down env) (copy_up env) (up_first env) of
                            None \<Rightarrow> (None, w2)
                          | Some (Some err) \<Rightarrow>
                              (Some (Some (Errorf_w ''data transfer failed: '' err)), w2)
                          | Some None \<Rightarrow> (Some None, w2)))))"
  unfolding establishConnectionRoutine_def
  by (simp add: assms establishConnectionWithTimeout_def Let_def)

lemma handler_ok_all: "handler_ok env w (establishConnectionRoutine hmac c id' env w)"
proof (cases "server_dial env")
  case (Inl err)
  then show ?thesis
    by (simp add: handler_ok_def establishConnectionRoutine_def establishConnectionWithTimeout_def)
next
  case (Inr p)
  define conn' where "conn' = \<lparr>fd = length (socks w), peer = p\<rparr>"
  define w1 where "w1 = w\<lparr>socks := socks w @ [True]\<rparr>"
  define hs where "hs = (case auth c of
                         None \<Rightarrow> (None, NewCodec conn')
                       | Some a \<Rightarrow>
                           (case PerformClientHandshake hmac a (NewCodec conn') (cid c) of
                              (Inl err, rc') \<Rightarrow> (Some err, rc')
                            | (Inr _, rc') \<Rightarrow> (None, rc')))"
  define m where "m = \<lparr>cm_Type = ''Accept'', cm_Authenticate = [], cm_Port = 0,
                        cm_Accept = id', cm_ClientId = []\<rparr>"
  have unfold1: "establishConnectionRoutine hmac c id' env w =
      defer_Close conn'
        (case hs of
           (Some err, rc1) \<Rightarrow> (Some (Some (Errorf_w ''client handshake failed: '' err)), w1)
         | (None, rc1) \<Rightarrow>
             (case Send rc1 m of
                (Some err, rc2) \<Rightarrow>
                  (Some (Some (Errorf_w ''failed to send accept message: '' err)), w1)
              | (None, rc2) \<Rightarrow>
                  (case establishConnectionWithTimeout (local_dial env) (lh c) (lp c) w1 of
                     (Inl err, w2) \<Rightarrow>
                       (Some (Some (Errorf_w
                          (''failed to connect to local host '' @ lh c @ '':'' @
                           itoa (unat (lp c)) @ '': '') err)), w2)
                   | (Inr lconn, w2) \<Rightarrow>
                       defer_Close lconn
                         (case eg_Wait (copy_down env) (copy_up env) (up_first env) of
                            None \<Rightarrow> (None, w2)
                          | Some (Some err) \<Rightarrow>
                              (Some (Some (Errorf_w ''data transfer failed: '' err)), w2)
                          | Some None \<Rightarrow> (Some None, w2)))))"
    unfolding conn'_def w1_def hs_def m_def by (rule handler_unfold[OF Inr])
  have c1: "socks (Close conn' w1) = socks w @ [False]"
    "logs (Close conn' w1) = logs w" "goroutines (Close conn' w1) = goroutines w"
    by (simp_all add: Close_def conn'_def w1_def)
  obtain eo rc1 where hs_eq: "hs = (eo, rc1)" by (cases hs)
  show ?thesis
  proof (cases eo)
    case (Some err)
    then show ?thesis
      using Inr c1 hs_eq by (simp add: handler_ok_def unfold1 defer_Close_def)
  next
    case None
    obtain so rc2 where send_eq: "Send rc1 m = (so, rc2)" by (cases "Send rc1 m")
    show ?thesis
    proof (cases so)
      case (Some err)
      then show ?thesis
        using Inr c1 hs_eq None send_eq by (simp add: handler_ok_def unfold1 defer_Close_def)
    next
      case no_send_err: None
      show ?thesis
      proof (cases "local_dial env")
        case (Inl err)
        then have ld: "establishConnectionWithTimeout (local_dial env) (lh c) (lp c) w1 =
            (Inl (Errorf_w (''could not connect to '' @ (lh c @ '':'' @ itoa (unat (lp c))) @
                    '': '') err), w1)"
          by (simp add: establishConnectionWithTimeout_def)
        show ?thesis
          using \<open>server_dial env = Inr p\<close> c1 hs_eq None send_eq no_send_err
          by (simp add: handler_ok_def unfold1 defer_Close_def ld)
      next
        case (Inr q)
        define lconn where "lconn = \<lparr>fd = length (socks w1), peer = q\<rparr>"
        define w2 where "w2 = w1\<lparr>socks := socks w1 @ [True]\<rparr>"
        have ld: "establishConnectionWithTimeout (local_dial env) (lh c) (lp c) w1 =
            (Inr lconn, w2)"
          using Inr by (simp add: establishConnectionWithTimeout_def lconn_def w2_def)
        have c2: "socks (Close conn' (Close lconn w2)) = socks w @ [False, False]"
          "logs (Close conn' (Close lconn w2)) = logs w"
          "goroutines (Close conn' (Close lconn w2)) = goroutines w"
          "logs w2 = logs w" "goroutines w2 = goroutines w"
          by (simp_all add: Close_def conn'_def lconn_def w1_def w2_def list_update_append)
        show ?thesis
        proof (cases "eg_Wait (copy_down env) (copy_up env) (up_first env)")
          case None
          then show ?thesis
            using \<open>server_dial env = Inr p\<close> hs_eq \<open>eo = None\<close> send_eq no_send_err c2
              eg_Wait_None[OF None]
            by (simp add: handler_ok_def unfold1 defer_Close_def ld)
        next
          case (Some res)
          then show ?thesis
            using \<open>server_dial env = Inr p\<close> hs_eq \<open>eo = None\<close> send_eq no_send_err c2
            by (cases res)
              (simp_all add: handler_ok_def unfold1 defer_Close_def ld numeral_2_eq_2)
        qed
      qed
    qed
  qed
qed

lemma fst_defer_Close: "fst (defer_Close c x) = fst x"
  by (cases x) (auto simp: defer_Close_def split: option.splits)

lemma Send_conn:
  "Send (rc\<lparr>conn := x\<rparr>) m = (fst (Send rc m), (snd (Send rc m))\<lparr>conn := x\<rparr>)"
  by (simp add: Send_def split: option.splits)

lemma Recv_conn:
  "Recv (rc\<lparr>conn := x\<rparr>) = (fst (Recv rc), (snd (Recv rc))\<lparr>conn := x\<rparr>)"
  by (simp add: Recv_def)

lemma PerformClientHandshake_conn:
  "PerformClientHandshake hmac a (rc\<lparr>conn := x\<rparr>) cid' =
     (fst (PerformClientHandshake hmac a rc cid'),
      (snd (PerformClientHandshake hmac a rc cid'))\<lparr>conn := x\<rparr>)"
  by (simp add: PerformClientHandshake_def Recv_def Send_def split: sum.splits option.splits)

lemma NewCodec_conn:
  "NewCodec \<lparr>fd = n, peer = p\<rparr> = (NewCodec \<lparr>fd = m, peer = p\<rparr>)\<lparr>conn := \<lparr>fd = n, peer = p\<rparr>\<rparr>"
  by (simp add: NewCodec_def)

lemma handshake_step_conn:
  "(case auth c of
      None \<Rightarrow> (None, rc\<lparr>conn := x\<rparr>)
    | Some a \<Rightarrow>
        (case PerformClientHandshake hmac a (rc\<lparr>conn := x\<rparr>) cid' of
           (Inl err, rc') \<Rightarrow> (Some err, rc')
         | (Inr _, rc') \<Rightarrow> (None, rc'))) =
   (let hs = (case auth c of
      None \<Rightarrow> (None, rc)
    | Some a \<Rightarrow>
        (case PerformClientHandshake hmac a rc cid' of
           (Inl err, rc') \<Rightarrow> (Some err, rc')
         | (Inr _, rc') \<Rightarrow> (None, rc')))
    in (fst hs, (snd hs)\<lparr>conn := x\<rparr>))"
proof (cases "auth c")
  case None
  then show ?thesis by simp
next
  case (Some a)
  obtain r rc' where h: "PerformClientHandshake hmac a rc cid' = (r, rc')"
    by (cases "PerformClientHandshake hmac a rc cid'")
  show ?thesis
    by (cases r) (simp_all add: Some PerformClientHandshake_conn h)
qed

lemma handler_result_indep:
  "fst (establishConnectionRoutine hmac c id' env w) =
   fst (establishConnectionRoutine hmac c id' env w2)"
proof (cases "server_dial env")
  case (Inl err)
  then show ?thesis
    by (simp add: establishConnectionRoutine_def establishConnectionWithTimeout_def)
next
  case (Inr p)
  define rc where "rc = NewCodec \<lparr>fd = length (socks w), peer = p\<rparr>"
  define x where "x = \<lparr>fd = length (socks w2), peer = p\<rparr>"
  define hs where "hs = (case auth c of
      None \<Rightarrow> (None, rc)
    | Some a \<Rightarrow>
        (case PerformClientHandshake hmac a rc (cid c) of
           (Inl err, rc') \<Rightarrow> (Some err, rc')
         | (Inr _, rc') \<Rightarrow> (None, rc')))"
  define m where "m = \<lparr>cm_Type = ''Accept'', cm_Authenticate = [], cm_Port = 0,
                              cm_Accept = id', cm_ClientId = []\<rparr>"
  have rc2: "NewCodec \<lparr>fd = length (socks w2), peer = p\<rparr> = rc\<lparr>conn := x\<rparr>"
    unfolding rc_def x_def by (rule NewCodec_conn)
  obtain eo rc1 where hs_eq: "hs = (eo, rc1)" by (cases hs)
  obtain so rc3 where send_eq: "Send rc1 m = (so, rc3)" by (cases "Send rc1 m")
  have A: "fst (establishConnectionRoutine hmac c id' env w) =
      (case eo of Some err \<Rightarrow> Some (Some (Errorf_w ''client handshake failed: '' err))
       | None \<Rightarrow> (case so of
            Some err \<Rightarrow> Some (Some (Errorf_w ''failed to send accept message: '' err))
          | None \<Rightarrow> (case local_dial env of
               Inl err \<Rightarrow> Some (Some (Errorf_w
                          (''failed to connect to local host '' @ lh c @ '':'' @
                           itoa (unat (lp c)) @ '': '')
                           (Errorf_w (''could not connect to '' @
                              (lh c @ '':'' @ itoa (unat (lp c))) @ '': '') err)))
             | Inr q \<Rightarrow> (case eg_Wait (copy_down env) (copy_up env) (up_first env) of
                            None \<Rightarrow> None
                          | Some (Some err) \<Rightarrow>
                              Some (Some (Errorf_w ''data transfer failed: '' err))
                          | Some None \<Rightarrow> Some None))))"
    unfolding handler_unfold[OF Inr] fst_defer_Close rc_def[symmetric] hs_def[symmetric]
      m_def[symmetric] hs_eq
    by (cases eo; cases so; cases "local_dial env";
        simp add: send_eq establishConnectionWithTimeout_def fst_defer_Close
          split: option.splits)
  have hs2: "(case auth c of
      None \<Rightarrow> (None, rc\<lparr>conn := x\<rparr>)
    | Some a \<Rightarrow>
        (case PerformClientHandshake hmac a (rc\<lparr>conn := x\<rparr>) (cid c) of
           (Inl err, rc') \<Rightarrow> (Some err, rc')
         | (Inr _, rc') \<Rightarrow> (None, rc'))) = (eo, rc1\<lparr>conn := x\<rparr>)"
    unfolding handshake_step_conn hs_def[symmetric] hs_eq by simp
  have send2: "Send (rc1\<lparr>conn := x\<rparr>) m = (so, rc3\<lparr>conn := x\<rparr>)"
    by (simp add: Send_conn send_eq)
  have B: "fst (establishConnectionRoutine hmac c id' env w2) =
      (case eo of Some err \<Rightarrow> Some (Some (Errorf_w ''client handshake failed: '' err))
       | None \<Rightarrow> (case so of
            Some err \<Rightarrow> Some (Some (Errorf_w ''failed to send accept message: '' err))
          | None \<Rightarrow> (case local_dial env of
               Inl err \<Rightarrow> Some (Some (Errorf_w
                          (''failed to connect to local host '' @ lh c @ '':'' @
                           itoa (unat (lp c)) @ '': '')
                           (Errorf_w (''could not connect to '' @
                              (lh c @ '':'' @ itoa (unat (lp c))) @ '': '') err)))
             | Inr q \<Rightarrow> (case eg_Wait (copy_down env) (copy_up env) (up_first env) of
                            None \<Rightarrow> None
                          | Some (Some err) \<Rightarrow>
                              Some (Some (Errorf_w ''data transfer failed: '' err))
                          | Some None \<Rightarrow> Some None))))"
    unfolding handler_unfold[OF Inr] fst_defer_Close rc2 hs2 m_def[symmetric]
    by (cases eo; cases so; cases "local_dial env";
        simp add: send2 establishConnectionWithTimeout_def fst_defer_Close
          split: option.splits)
  show ?thesis unfolding A B ..
qed

subsection \<open>Isolation and cleanup\<close>

text \<open>
  C4. A failure of a tunnel handler stays in the handler. Processing a \<^verbatim>\<open>Connection\<close>
  message returns nil to the control loop and only records the new goroutine; what the
  handler will do is no input of it. The goroutine runs the handler and, when the
  handler returns, writes one line to the log, the handler's error inside it if there is
  one; it starts no goroutine and returns no value. Whatever a goroutine did to the
  world, the control loop goes on to the same result, and any other run of the handler
  has the same outcome.
\<close>

theorem tunnel_handler_failure_is_isolated:
  "(sm_Type msg = MtConnection \<longrightarrow>
      processServerMessage c msg w =
        (None, w\<lparr>goroutines := goroutines w @ [sm_Connection msg]\<rparr>)) \<and>
   logs (connection_goroutine hmac c id' env w) =
     logs w @ (case fst (establishConnectionRoutine hmac c id' env w) of
                 None \<Rightarrow> []
               | Some None \<Rightarrow> [''Connection closed gracefully'']
               | Some (Some err) \<Rightarrow> [''Connection exited with error: '' @ Error_msg err]) \<and>
   goroutines (connection_goroutine hmac c id' env w) = goroutines w \<and>
   map_option (\<lambda>(r, c', _). (r, c')) (Listen c2 (connection_goroutine hmac c id' env w)) =
     map_option (\<lambda>(r, c', _). (r, c')) (Listen c2 w) \<and>
   fst (establishConnectionRoutine hmac c2 id2 env2 (connection_goroutine hmac c id' env w)) =
     fst (establishConnectionRoutine hmac c2 id2 env2 w)"
proof -
  obtain r w' where run: "establishConnectionRoutine hmac c id' env w = (r, w')"
    by (cases "establishConnectionRoutine hmac c id' env w")
  have frame: "logs w' = logs w" "goroutines w' = goroutines w"
    using handler_ok_all[of env w hmac c id'] by (cases r; simp add: handler_ok_def run)+
  have 1: "sm_Type msg = MtConnection \<longrightarrow>
      processServerMessage c msg w =
        (None, w\<lparr>goroutines := goroutines w @ [sm_Connection msg]\<rparr>)"
    by (simp add: processServerMessage_def tags_distinct)
  have 2: "logs (connection_goroutine hmac c id' env w) =
     logs w @ (case fst (establishConnectionRoutine hmac c id' env w) of
                 None \<Rightarrow> []
               | Some None \<Rightarrow> [''Connection closed gracefully'']
               | Some (Some err) \<Rightarrow> [''Connection exited with error: '' @ Error_msg err])"
    by (simp add: connection_goroutine_def run frame log_Println_def split: option.splits)
  have 3: "goroutines (connection_goroutine hmac c id' env w) = goroutines w"
    by (simp add: connection_goroutine_def run frame log_Println_def split: option.splits)
  show ?thesis
    using 1 2 3 Listen_world_indep[of c2 "connection_goroutine hmac c id' env w" w]
      handler_result_indep[of hmac c2 id2 env2 "connection_goroutine hmac c id' env w" w]
    by blast
qed

theorem tunnel_handler_failure_is_isolated_witness:
  "processServerMessage (established_client closed_by_peer)
     ((server_message MtConnection)\<lparr>sm_Connection := replicate 16 9\<rparr>) empty_world =
     (None, empty_world\<lparr>goroutines := [replicate 16 9]\<rparr>) \<and>
   logs (connection_goroutine toy_hmac (established_client closed_by_peer) (replicate 16 9)
           local_service_down empty_world) =
     [''Connection exited with error: failed to connect to local host 127.0.0.1:3000: could not connect to 127.0.0.1:3000: connection refused'']"
proof -
  have run: "fst (establishConnectionRoutine toy_hmac (established_client closed_by_peer)
                (replicate 16 9) local_service_down empty_world) =
      Some (Some (Errorf_w ''failed to connect to local host 127.0.0.1:3000: ''
                   (Errorf_w ''could not connect to 127.0.0.1:3000: ''
                      (errorString ''connection refused''))))"
    by (simp add: establishConnectionRoutine_def establishConnectionWithTimeout_def
        local_service_down_def mock_server_def server_message_def established_client_def
        empty_world_def NewCodec_def PerformClientHandshake_def Recv_def Send_def
        defer_Close_def tags_distinct)
  show ?thesis
    using tunnel_handler_failure_is_isolated
      [where msg = "(server_message MtConnection)\<lparr>sm_Connection := replicate 16 9\<rparr>"
         and c = "established_client closed_by_peer" and w = empty_world
         and hmac = toy_hmac and id' = "replicate 16 9" and env = local_service_down]
    by (simp add: run[unfolded empty_world_def] server_message_def empty_world_def Errorf_w_def)
qed

text \<open>
  C8. Every socket the handler opened is closed when the handler returns, on every path:
  whatever the handler returns, the socket table is then the one it found followed by
  the sockets of this run, each of them closed; the run opened none when the connection
  to the server failed, one or two otherwise, and two when it returns nil. Which copy
  failed, or failed first, makes no difference. The handler returns unless one of the
  two copies never ends.
\<close>

theorem handler_closes_its_sockets:
  "(\<forall>r w'. establishConnectionRoutine hmac c id' env w = (Some r, w') \<longrightarrow>
      socks w' = socks w @ replicate (length (socks w') - length (socks w)) False \<and>
      length (socks w') \<le> length (socks w) + 2 \<and>
      (length (socks w') = length (socks w) \<longleftrightarrow> isl (server_dial env)) \<and>
      (r = None \<longrightarrow> length (socks w') = length (socks w) + 2)) \<and>
   (fst (establishConnectionRoutine hmac c id' env w) = None \<longrightarrow>
      copy_down env = Never_ends \<or> copy_up env = Never_ends)"
proof -
  obtain r w' where run: "establishConnectionRoutine hmac c id' env w = (r, w')"
    by (cases "establishConnectionRoutine hmac c id' env w")
  show ?thesis
    using handler_ok_all[of env w hmac c id']
    by (cases r) (auto simp: handler_ok_def run split: if_splits)
qed

theorem handler_closes_its_sockets_witness:
  "establishConnectionRoutine toy_hmac (established_client closed_by_peer) (replicate 16 9)
     upload_fails empty_world =
     (Some (Some (Errorf_w ''data transfer failed: '' (errorString ''broken pipe''))),
      empty_world\<lparr>socks := [False, False]\<rparr>) \<and>
   snd (establishConnectionRoutine toy_hmac (established_client closed_by_peer)
         (replicate 16 9) local_service_down empty_world) = empty_world\<lparr>socks := [False]\<rparr>"
proof -
  have run: "establishConnectionRoutine toy_hmac (established_client closed_by_peer)
      (replicate 16 9) upload_fails empty_world =
     (Some (Some (Errorf_w ''data transfer failed: '' (errorString ''broken pipe''))),
      empty_world\<lparr>socks := [False, False]\<rparr>)"
    by (simp add: establishConnectionRoutine_def establishConnectionWithTimeout_def
        upload_fails_def mock_server_def server_message_def established_client_def
        empty_world_def NewCodec_def PerformClientHandshake_def Recv_def Send_def
        defer_Close_def Close_def eg_Wait_def tags_distinct)
  have run2: "snd (establishConnectionRoutine toy_hmac (established_client closed_by_peer)
         (replicate 16 9) local_service_down empty_world) = empty_world\<lparr>socks := [False]\<rparr>"
    by (simp add: establishConnectionRoutine_def establishConnectionWithTimeout_def
        local_service_down_def mock_server_def server_message_def established_client_def
        empty_world_def NewCodec_def PerformClientHandshake_def Recv_def Send_def
        defer_Close_def Close_def tags_distinct)
  show ?thesis
    using handler_closes_its_sockets
      [of toy_hmac "established_client closed_by_peer" "replicate 16 9" upload_fails
          empty_world] run run2
    by simp
qed

end
